theory Spec2Isabelle
  imports Complex_Main "HOL-Library.Multiset"
begin

section \<open>The interpolation script: \<open>lagrange_constant_term\<close>\<close>

text \<open>
  The repository is one Python script; its only function is
  \<^verbatim>\<open>
  def lagrange_constant_term(points):
      secret = 0.0
      n = len(points)
      for i in range(n):
          xi, yi = points[i]
          li_0 = 1.0
          for j in range(n):
              if i != j:
                  xj, _ = points[j]
                  li_0 *= (0 - xj) / (xi - xj)
          secret += yi * li_0
      return secret
  \<close>
  The script calls it on lists of pairs of Python integers.

  Numbers. A Python \<open>float\<close> is a binary64 value; every finite one is a real number,
  and each arithmetic operation returns the exact result rounded. The model works on
  \<open>real\<close> and takes the rounding as a parameter \<open>rnd\<close>, applied wherever the
  interpreter rounds: to the quotient, to the product and to the sum, and to \<open>yi\<close>
  when it enters the float product. The two differences \<open>0 - xj\<close> and
  \<open>xi - xj\<close> are taken on the inputs as they are: they are exact on Python
  integers, and on floats the rounded difference of two different numbers is never
  zero, so the test for a zero divisor is the same (on floats the interpreter also
  rounds \<open>xi - xj\<close> before it divides; that rounding is not in the model, so the
  values computed under a rounding are those of integer inputs, the inputs of the
  script, while the calls that raise are the same for both). With \<open>rnd\<close> the identity the
  model is the exact real arithmetic that the floats approximate; with \<open>rnd\<close>
  rounding to binary64 it is the float computation as long as no value leaves the
  finite range (infinities, NaN and \<open>OverflowError\<close> are outside the model).

  Errors. The only statement that can raise on a well-formed list of pairs is the
  division: Python raises \<open>ZeroDivisionError\<close> for a zero divisor, for integers and
  for floats alike. The script defines no exception class and has no \<open>raise\<close>
  statement; \<open>InvalidInputError\<close> is the name of the error class of the
  specification, listed in the error type so that statements about it can be written.
\<close>

datatype error = ZeroDivisionError | InvalidInputError

type_synonym point = "real \<times> real"

text \<open>
  The inner loop \<open>for j in range(n)\<close>, as a recursion over the indices still to be
  visited, with the running value of \<open>li_0\<close>. The indices come from \<open>range(n)\<close>
  with \<open>n = len(points)\<close>, so every read \<open>points[j]\<close> is in range.
\<close>

fun basis_loop ::
  "(real \<Rightarrow> real) \<Rightarrow> point list \<Rightarrow> nat \<Rightarrow> real \<Rightarrow> nat list \<Rightarrow> real \<Rightarrow> error + real" where
  "basis_loop rnd points i xi [] li_0 = Inr li_0"
| "basis_loop rnd points i xi (j # js) li_0 =
     (if i \<noteq> j then
        (let xj = fst (points ! j) in
         if xi - xj = 0 then Inl ZeroDivisionError
         else basis_loop rnd points i xi js (rnd (li_0 * rnd ((0 - xj) / (xi - xj)))))
      else basis_loop rnd points i xi js li_0)"

text \<open>
  The outer loop \<open>for i in range(n)\<close>, with the running value of \<open>secret\<close>. An
  exception of the inner loop ends the call.
\<close>

fun secret_loop ::
  "(real \<Rightarrow> real) \<Rightarrow> point list \<Rightarrow> nat \<Rightarrow> nat list \<Rightarrow> real \<Rightarrow> error + real" where
  "secret_loop rnd points n [] secret = Inr secret"
| "secret_loop rnd points n (i # is) secret =
     (let xi = fst (points ! i); yi = snd (points ! i) in
      case basis_loop rnd points i xi [0..<n] 1 of
        Inl e \<Rightarrow> Inl e
      | Inr li_0 \<Rightarrow> secret_loop rnd points n is (rnd (secret + rnd (rnd yi * li_0))))"

definition lagrange_constant_term_with :: "(real \<Rightarrow> real) \<Rightarrow> point list \<Rightarrow> error + real" where
  "lagrange_constant_term_with rnd points =
     (let n = length points in secret_loop rnd points n [0..<n] 0)"

text \<open>The function in exact arithmetic: no operation rounds.\<close>

definition exact_constant_term :: "point list \<Rightarrow> error + real" where
  "exact_constant_term points = lagrange_constant_term_with (\<lambda>v. v) points"

subsection \<open>The call in a program state\<close>

text \<open>
  The same function with the interpreter's state written out. The argument
  \<open>points\<close> is a reference to a list object of the heap, shared with the caller;
  the console is the other state the script acts on (its \<open>print\<close> calls, all at
  module level). The locals \<open>secret\<close>, \<open>n\<close>, \<open>i\<close>, \<open>xi\<close>, \<open>yi\<close>,
  \<open>li_0\<close>, \<open>j\<close>, \<open>xj\<close> live in the frame of the call and end with it. Every
  statement of the function returns the state it leaves behind: the function reads
  \<open>len(points)\<close>, \<open>points[i]\<close> and \<open>points[j]\<close>, and has no assignment to an
  element, no method call on the list and no \<open>print\<close>.
\<close>

type_synonym ref = nat

record py_state =
  heap :: "ref \<Rightarrow> point list"
  stdout :: "string list"

fun basis_loop_st ::
  "(real \<Rightarrow> real) \<Rightarrow> ref \<Rightarrow> nat \<Rightarrow> real \<Rightarrow> nat list \<Rightarrow> real \<Rightarrow> py_state \<Rightarrow>
   (error + real) \<times> py_state" where
  "basis_loop_st rnd points i xi [] li_0 s = (Inr li_0, s)"
| "basis_loop_st rnd points i xi (j # js) li_0 s =
     (if i \<noteq> j then
        (let xj = fst (heap s points ! j) in
         if xi - xj = 0 then (Inl ZeroDivisionError, s)
         else basis_loop_st rnd points i xi js (rnd (li_0 * rnd ((0 - xj) / (xi - xj)))) s)
      else basis_loop_st rnd points i xi js li_0 s)"

fun secret_loop_st ::
  "(real \<Rightarrow> real) \<Rightarrow> ref \<Rightarrow> nat \<Rightarrow> nat list \<Rightarrow> real \<Rightarrow> py_state \<Rightarrow>
   (error + real) \<times> py_state" where
  "secret_loop_st rnd points n [] secret s = (Inr secret, s)"
| "secret_loop_st rnd points n (i # is) secret s =
     (let xi = fst (heap s points ! i); yi = snd (heap s points ! i) in
      case basis_loop_st rnd points i xi [0..<n] 1 s of
        (Inl e, s') \<Rightarrow> (Inl e, s')
      | (Inr li_0, s') \<Rightarrow> secret_loop_st rnd points n is (rnd (secret + rnd (rnd yi * li_0))) s')"

definition lagrange_constant_term_st ::
  "(real \<Rightarrow> real) \<Rightarrow> ref \<Rightarrow> py_state \<Rightarrow> (error + real) \<times> py_state" where
  "lagrange_constant_term_st rnd points s =
     (let n = length (heap s points) in secret_loop_st rnd points n [0..<n] 0 s)"

subsection \<open>Rounding to binary64\<close>

text \<open>
  The rounding of the interpreter: to the nearest number with a 53-bit significand,
  ties to the even significand, with the subnormal numbers (exponent at least
  \<open>-1074\<close>). \<open>bit_length\<close> is the number of binary digits of a natural number.
\<close>

fun bit_length :: "nat \<Rightarrow> nat" where
  "bit_length n = (if n = 0 then 0 else Suc (bit_length (n div 2)))"

declare bit_length.simps [simp del]

definition pow2 :: "int \<Rightarrow> real" where
  "pow2 e = (if 0 \<le> e then 2 ^ nat e else 1 / 2 ^ nat (- e))"

text \<open>For \<open>v > 0\<close>, the exponent \<open>e\<close> with \<open>2 ^ e \<le> v < 2 ^ (e + 1)\<close>.\<close>

definition floor_log2 :: "real \<Rightarrow> int" where
  "floor_log2 v =
     (if 1 \<le> v then int (bit_length (nat \<lfloor>v\<rfloor>)) - 1
      else - int (bit_length (nat (\<lceil>1 / v\<rceil> - 1))))"

definition round_half_even :: "real \<Rightarrow> int" where
  "round_half_even v =
     (let f = \<lfloor>v\<rfloor>; d = v - of_int f in
      if d < 1 / 2 then f else if 1 / 2 < d then f + 1 else if even f then f else f + 1)"

definition binary64 :: "real \<Rightarrow> real" where
  "binary64 v =
     (if v = 0 then 0
      else let e = max (floor_log2 \<bar>v\<bar> - 52) (- 1074) in
        sgn v * of_int (round_half_even (\<bar>v\<bar> / pow2 e)) * pow2 e)"

subsection \<open>The reference formula of the specification\<close>




subsection \<open>Auxiliary notions of the proofs\<close>





section \<open>The loops\<close>










section \<open>Evaluating the rounding\<close>

lemma bit_length_numeral [simp]:
  "bit_length 0 = 0"
  "bit_length (Suc 0) = Suc 0"
  "bit_length 1 = 1"
  "bit_length (numeral (Num.Bit0 k)) = Suc (bit_length (numeral k))"
  "bit_length (numeral (Num.Bit1 k)) = Suc (bit_length (numeral k))"
  by (subst bit_length.simps, simp)+

lemmas binary64_eval = binary64_def floor_log2_def round_half_even_def pow2_def Let_def

text \<open>
  The rounding on known values: 0.1, 1.2, -0.2 and 1/3 as the interpreter stores them,
  and two ties between neighbouring floats, which go to the even significand.
\<close>

lemma binary64_examples:
  "binary64 (1 / 10) = 3602879701896397 / 36028797018963968"
  "binary64 (6 / 5) = 5404319552844595 / 4503599627370496"
  "binary64 (- 1 / 5) = - 3602879701896397 / 18014398509481984"
  "binary64 (1 / 3) = 6004799503160661 / 18014398509481984"
  "binary64 9007199254740993 = 9007199254740992"
  "binary64 9007199254740995 = 9007199254740996"
  by (simp_all add: binary64_eval)

section \<open>The closed form in exact arithmetic\<close>





section \<open>Errors\<close>






section \<open>The empty list and the one-point list\<close>

text \<open>
  C10: called with an empty sequence of points, \<open>exact_constant_term\<close> does not
  fail: neither loop runs and it returns 0.0. This holds whatever the rounding is.
\<close>

theorem empty_points_returns_zero:
  "lagrange_constant_term_with rnd [] = Inr 0"
  by (simp add: lagrange_constant_term_with_def)



section \<open>The reference formula\<close>





section \<open>Polynomial functions and the round trip\<close>

















section \<open>The points of the script\<close>

text \<open>
  C5: for the input \<open>[(1, 4), (2, 7), (3, 12)]\<close> the result is 3 within 1e-9: it is
  exactly 3, in binary64 arithmetic (no operation of this run rounds) and in exact
  arithmetic.
\<close>

theorem first_three_points_give_3:
  "(\<exists>v. lagrange_constant_term_with binary64 [(1, 4), (2, 7), (3, 12)] = Inr v \<and>
        \<bar>v - 3\<bar> < 1 / 10 ^ 9) \<and>
   lagrange_constant_term_with binary64 [(1, 4), (2, 7), (3, 12)] = Inr 3 \<and>
   exact_constant_term [(1, 4), (2, 7), (3, 12)] = Inr 3"
  by (simp add: exact_constant_term_def lagrange_constant_term_with_def upt_rec binary64_eval)

text \<open>
  C6: for the input \<open>[(1, 4), (2, 7), (6, 39)]\<close>, another three points of
  \<open>x\<^sup>2 + 3\<close>, the result is 3 within 1e-9 as well: exactly 3 in binary64 arithmetic
  (the quotients 6/5 and -1/5 round, the sum comes out exact) and in exact
  arithmetic, so both selections of the script give the same result.
\<close>

theorem alternative_points_give_3:
  "(\<exists>v. lagrange_constant_term_with binary64 [(1, 4), (2, 7), (6, 39)] = Inr v \<and>
        \<bar>v - 3\<bar> < 1 / 10 ^ 9) \<and>
   lagrange_constant_term_with binary64 [(1, 4), (2, 7), (6, 39)] = Inr 3 \<and>
   exact_constant_term [(1, 4), (2, 7), (6, 39)] = Inr 3 \<and>
   lagrange_constant_term_with binary64 [(1, 4), (2, 7), (6, 39)] =
     lagrange_constant_term_with binary64 [(1, 4), (2, 7), (3, 12)]"
  by (simp add: exact_constant_term_def lagrange_constant_term_with_def upt_rec binary64_eval)

section \<open>No side effects\<close>

lemma basis_loop_st_pure:
  "basis_loop_st rnd r i xi js li_0 s = (basis_loop rnd (heap s r) i xi js li_0, s)"
  by (induction js arbitrary: li_0) (auto simp: Let_def)

lemma secret_loop_st_pure:
  "secret_loop_st rnd r n is secret s = (secret_loop rnd (heap s r) n is secret, s)"
  by (induction "is" arbitrary: secret) (auto simp: Let_def basis_loop_st_pure split: sum.splits)

lemma call_st_pure:
  "lagrange_constant_term_st rnd r s = (lagrange_constant_term_with rnd (heap s r), s)"
  by (simp add: lagrange_constant_term_st_def lagrange_constant_term_with_def Let_def
      secret_loop_st_pure)

text \<open>
  C8: the call is a pure, deterministic function of its input. It leaves the program
  state (the heap with the input list, the console) as it found it; its result is a
  function of the contents of the input list alone; so two calls on equal point
  sequences, at any references and in any states, return equal results.
\<close>

theorem pure_function:
  "snd (lagrange_constant_term_st rnd r s) = s \<and>
   fst (lagrange_constant_term_st rnd r s) = lagrange_constant_term_with rnd (heap s r) \<and>
   (heap s r = heap s' r' \<longrightarrow>
      fst (lagrange_constant_term_st rnd r s) = fst (lagrange_constant_term_st rnd r' s'))"
  by (simp add: call_st_pure)

theorem pure_function_witness:
  "heap \<lparr>heap = (\<lambda>a. if a = 1 then [(1, 4), (2, 7), (3, 12)] else []), stdout = []\<rparr> 1 =
   heap \<lparr>heap = (\<lambda>a. [(1, 4), (2, 7), (3, 12)]), stdout = [''x'']\<rparr> 2 \<and>
   fst (lagrange_constant_term_st binary64 1
      \<lparr>heap = (\<lambda>a. if a = 1 then [(1, 4), (2, 7), (3, 12)] else []), stdout = []\<rparr>) =
   fst (lagrange_constant_term_st binary64 2
      \<lparr>heap = (\<lambda>a. [(1, 4), (2, 7), (3, 12)]), stdout = [''x'']\<rparr>)"
proof -
  let ?s = "\<lparr>heap = (\<lambda>a. if a = 1 then [(1, 4), (2, 7), (3, 12)] else []), stdout = []\<rparr>"
  let ?s' = "\<lparr>heap = (\<lambda>a. [(1, 4), (2, 7), (3, 12)]), stdout = [''x'']\<rparr>"
  have h: "heap ?s 1 = heap ?s' 2" by simp
  from h pure_function [of binary64 1 ?s ?s' 2] show ?thesis by blast
qed

end
